theory Spec2Isabelle
  imports Complex_Main "HOL-Library.Word"
begin

section \<open>The page the scripts run on\<close>

text \<open>
  The two scripts, \<^verbatim>\<open>comment.js\<close> and the fade script (in two spellings), are
  event handlers over a document: they query elements, read an attribute, assign
  \<^verbatim>\<open>innerHTML\<close> and \<^verbatim>\<open>style\<close>, subscribe to events and schedule animation-frame
  callbacks. The document is not part of the sources; the model below gives it the
  behaviour of the DOM interfaces the scripts name.

  A JavaScript string is a sequence of UTF-16 code units, and \<^verbatim>\<open>length\<close> counts them.
\<close>

type_synonym js_string = "16 word list"

definition js_lit :: "string \<Rightarrow> js_string" where
  "js_lit cs = map of_char cs"

text \<open>
  Element objects live in a heap addressed by handles; the scripts allocate none, so the
  heap is total. An element carries its tag, its attributes, its content as
  \<^verbatim>\<open>innerHTML\<close> reads it and the inline style text last assigned to \<^verbatim>\<open>style\<close>. The
  tree shape of the document is left out: the scripts use it only through the document
  order of \<^verbatim>\<open>querySelectorAll\<close>, which is the order of \<open>nodes\<close>.
\<close>

type_synonym handle = nat

record element =
  tag :: string
  attributes :: "string \<rightharpoonup> js_string"
  innerHTML :: js_string
  style :: js_string

datatype js_error = TypeError

text \<open>The event names the scripts subscribe to, \<^verbatim>\<open>"keydown"\<close> and \<^verbatim>\<open>"click"\<close>.\<close>

datatype event = Keydown | Click

text \<open>
  The named functions passed to \<^verbatim>\<open>addEventListener\<close>, and the anonymous functions
  passed to \<^verbatim>\<open>requestAnimationFrame\<close> (one per function expression of the source; the
  \<open>W_\<close> ones belong to the \<^verbatim>\<open>window.\<close>-qualified spelling of the fade script).
\<close>

datatype listener = LengthCheck | Fade_in | Fade_out | W_fade_in | W_fade_out

datatype frame_callback = Fade_in_frame | Fade_out_frame | W_fade_in_frame | W_fade_out_frame

text \<open>
  The page: the heap, the elements of the document in document order, the registered
  listeners, the pending animation-frame callbacks, and the global variables
  \<^verbatim>\<open>strong\<close> and \<^verbatim>\<open>div\<close> of the scripts (\<open>None\<close> is \<^verbatim>\<open>undefined\<close>). The globals
  \<^verbatim>\<open>inputs\<close> and \<^verbatim>\<open>i\<close> are read by the subscription loop only and are arguments of
  that loop here.
\<close>

record page =
  heap :: "handle \<Rightarrow> element"
  nodes :: "handle list"
  listeners :: "(handle \<times> event \<times> listener) list"
  raf_callbacks :: "frame_callback list"
  strong :: "handle option"
  div_node :: "handle option"

text \<open>
  A script or handler either completes or throws; a throw does not undo the writes made
  before it, so it carries the page as it was at that moment.
\<close>

datatype completion = Normal page | Throw js_error page

fun state_of :: "completion \<Rightarrow> page" where
  "state_of (Normal s) = s"
| "state_of (Throw e s) = s"

fun thrown :: "completion \<Rightarrow> js_error option" where
  "thrown (Normal s) = None"
| "thrown (Throw e s) = Some e"

subsection \<open>The document interfaces\<close>

text \<open>
  Modelled from the spec: the attribute read of the document environment (section 6),
  missing from the sources. An attribute the element does not have reads as \<^verbatim>\<open>null\<close>
  (\<open>None\<close>), the "absent/null value" of section 4.1.
\<close>

definition getAttribute :: "page \<Rightarrow> handle \<Rightarrow> string \<Rightarrow> js_string option" where
  "getAttribute s h name = attributes (heap s h) name"

text \<open>
  Modelled from the spec: the element query of the document environment (section 6),
  missing from the sources. The scripts query by tag name only; the result lists the
  matching elements in document order.
\<close>

definition querySelectorAll :: "page \<Rightarrow> string \<Rightarrow> handle list" where
  "querySelectorAll s sel = filter (\<lambda>h. tag (heap s h) = sel) (nodes s)"

text \<open>Indexing a JavaScript array: \<^verbatim>\<open>undefined\<close> past the end.\<close>

definition index :: "'a list \<Rightarrow> nat \<Rightarrow> 'a option" where
  "index xs i = (if i < length xs then Some (xs ! i) else None)"

text \<open>
  Modelled from the spec: content and style mutation of the document environment
  (section 6), missing from the sources. Each assignment replaces the field of the one
  element it is made on.
\<close>

definition set_innerHTML :: "page \<Rightarrow> handle \<Rightarrow> js_string \<Rightarrow> page" where
  "set_innerHTML s h v = s\<lparr>heap := (heap s)(h := (heap s h)\<lparr>innerHTML := v\<rparr>)\<rparr>"

definition set_style :: "page \<Rightarrow> handle \<Rightarrow> js_string \<Rightarrow> page" where
  "set_style s h v = s\<lparr>heap := (heap s)(h := (heap s h)\<lparr>style := v\<rparr>)\<rparr>"

text \<open>
  Modelled from the spec: event subscription of the document environment (section 6),
  missing from the sources. A listener already registered on the element for the event
  is not registered twice.
\<close>

definition addEventListener :: "page \<Rightarrow> handle \<Rightarrow> event \<Rightarrow> listener \<Rightarrow> page" where
  "addEventListener s h ev f =
     (if (h, ev, f) \<in> set (listeners s) then s
      else s\<lparr>listeners := listeners s @ [(h, ev, f)]\<rparr>)"

text \<open>
  Modelled from the spec: the display-refresh scheduling primitive (sections 4.2 and 6),
  missing from the sources. The callback joins the end of the pending list; nothing runs
  until the next display refresh.
\<close>

definition requestAnimationFrame :: "page \<Rightarrow> frame_callback \<Rightarrow> page" where
  "requestAnimationFrame s cb = s\<lparr>raf_callbacks := raf_callbacks s @ [cb]\<rparr>"

section \<open>The length check: \<^verbatim>\<open>src/server/comment.js\<close>\<close>

text \<open>
  \<^verbatim>\<open>function lengthCheck() {
    var value = this.getAttribute("value");
    if (value.length > 10) {
      strong.innerHTML = "Comment too long!";
    }
  }\<close>
  Reading \<^verbatim>\<open>length\<close> of \<^verbatim>\<open>null\<close> and assigning a property of \<^verbatim>\<open>undefined\<close> both
  throw a \<^verbatim>\<open>TypeError\<close>.
\<close>

definition lengthCheck :: "handle \<Rightarrow> page \<Rightarrow> completion" where
  "lengthCheck this s =
     (case getAttribute s this ''value'' of
        None \<Rightarrow> Throw TypeError s
      | Some val \<Rightarrow>
          if length val > 10 then
            (case strong s of
               None \<Rightarrow> Throw TypeError s
             | Some e \<Rightarrow> Normal (set_innerHTML s e (js_lit ''Comment too long!'')))
          else Normal s)"


text \<open>
  The top level of \<^verbatim>\<open>comment.js\<close>:
  \<^verbatim>\<open>var strong = document.querySelectorAll("strong")[0];
  var inputs = document.querySelectorAll("input");
  for (var i = 0; i < inputs.length; i++) {
    inputs[i].addEventListener("keydown", lengthCheck);
  }\<close>
\<close>

function comment_loop :: "page \<Rightarrow> handle list \<Rightarrow> nat \<Rightarrow> page" where
  "comment_loop s inputs i =
     (if i < length inputs
      then comment_loop (addEventListener s (inputs ! i) Keydown LengthCheck) inputs (i + 1)
      else s)"
  by pat_completeness auto
termination
  by (relation "measure (\<lambda>(s, inputs, i). length inputs - i)") auto

declare comment_loop.simps [simp del]

definition comment_js :: "page \<Rightarrow> completion" where
  "comment_js s =
     (let s1 = s\<lparr>strong := index (querySelectorAll s ''strong'') 0\<rparr>;
          inputs = querySelectorAll s1 ''input''
      in Normal (comment_loop s1 inputs 0))"

section \<open>The fade script: \<^verbatim>\<open>src/unnamed/part_000\<close>\<close>

text \<open>
  The file holds the script twice. The first spelling (lines 1 to 16):
  \<^verbatim>\<open>function fade_in() {
    requestAnimationFrame(function () { div.style = "opacity:0.999"; });
  }
  function fade_out() {
    requestAnimationFrame(function () { div.style = "opacity:0.1"; });
  }\<close>
  and the second spelling (lines 17 to 36), on \<^verbatim>\<open>window\<close>, whose style texts have a
  space after the colon:
  \<^verbatim>\<open>window.fade_in = function () {
    window.requestAnimationFrame(function () { window.div.style = "opacity: 0.999"; });
  };
  window.fade_out = function () {
    window.requestAnimationFrame(function () { window.div.style = "opacity: 0.1"; });
  };\<close>
\<close>

definition fade_in :: "page \<Rightarrow> page" where
  "fade_in s = requestAnimationFrame s Fade_in_frame"

definition fade_out :: "page \<Rightarrow> page" where
  "fade_out s = requestAnimationFrame s Fade_out_frame"

definition w_fade_in :: "page \<Rightarrow> page" where
  "w_fade_in s = requestAnimationFrame s W_fade_in_frame"

definition w_fade_out :: "page \<Rightarrow> page" where
  "w_fade_out s = requestAnimationFrame s W_fade_out_frame"

text \<open>The bodies of the four anonymous functions; \<^verbatim>\<open>div\<close> is read when they run.\<close>

fun run_callback :: "frame_callback \<Rightarrow> page \<Rightarrow> completion" where
  "run_callback Fade_in_frame s =
     (case div_node s of
        None \<Rightarrow> Throw TypeError s
      | Some d \<Rightarrow> Normal (set_style s d (js_lit ''opacity:0.999'')))"
| "run_callback Fade_out_frame s =
     (case div_node s of
        None \<Rightarrow> Throw TypeError s
      | Some d \<Rightarrow> Normal (set_style s d (js_lit ''opacity:0.1'')))"
| "run_callback W_fade_in_frame s =
     (case div_node s of
        None \<Rightarrow> Throw TypeError s
      | Some d \<Rightarrow> Normal (set_style s d (js_lit ''opacity: 0.999'')))"
| "run_callback W_fade_out_frame s =
     (case div_node s of
        None \<Rightarrow> Throw TypeError s
      | Some d \<Rightarrow> Normal (set_style s d (js_lit ''opacity: 0.1'')))"

text \<open>
  The top level of the fade script:
  \<^verbatim>\<open>var div = document.querySelectorAll("div")[0];
  document.querySelectorAll("button")[0].addEventListener("click", fade_out);
  document.querySelectorAll("button")[1].addEventListener("click", fade_in);\<close>
  Calling a method of \<^verbatim>\<open>undefined\<close> throws a \<^verbatim>\<open>TypeError\<close>; what ran before stays.
\<close>

definition fade_js :: "page \<Rightarrow> completion" where
  "fade_js s =
     (let s1 = s\<lparr>div_node := index (querySelectorAll s ''div'') 0\<rparr>
      in case index (querySelectorAll s1 ''button'') 0 of
           None \<Rightarrow> Throw TypeError s1
         | Some b0 \<Rightarrow>
             (let s2 = addEventListener s1 b0 Click Fade_out
              in case index (querySelectorAll s2 ''button'') 1 of
                   None \<Rightarrow> Throw TypeError s2
                 | Some b1 \<Rightarrow> Normal (addEventListener s2 b1 Click Fade_in)))"

definition w_fade_js :: "page \<Rightarrow> completion" where
  "w_fade_js s =
     (let s1 = s\<lparr>div_node := index (querySelectorAll s ''div'') 0\<rparr>
      in case index (querySelectorAll s1 ''button'') 0 of
           None \<Rightarrow> Throw TypeError s1
         | Some b0 \<Rightarrow>
             (let s2 = addEventListener s1 b0 Click W_fade_out
              in case index (querySelectorAll s2 ''button'') 1 of
                   None \<Rightarrow> Throw TypeError s2
                 | Some b1 \<Rightarrow> Normal (addEventListener s2 b1 Click W_fade_in)))"

section \<open>Events and display refresh\<close>

text \<open>Calling a registered listener, with \<^verbatim>\<open>this\<close> the element it is registered on.\<close>

fun call_listener :: "listener \<Rightarrow> handle \<Rightarrow> page \<Rightarrow> completion" where
  "call_listener LengthCheck this s = lengthCheck this s"
| "call_listener Fade_in this s = Normal (fade_in s)"
| "call_listener Fade_out this s = Normal (fade_out s)"
| "call_listener W_fade_in this s = Normal (w_fade_in s)"
| "call_listener W_fade_out this s = Normal (w_fade_out s)"

text \<open>
  Modelled from the spec: the event loop of section 5, missing from the sources.
  Handlers run to completion one after another; an exception that escapes a handler
  ends that handler only.
\<close>

fun call_listeners :: "listener list \<Rightarrow> handle \<Rightarrow> page \<Rightarrow> page" where
  "call_listeners [] this s = s"
| "call_listeners (f # fs) this s = call_listeners fs this (state_of (call_listener f this s))"

definition listeners_on :: "page \<Rightarrow> handle \<Rightarrow> event \<Rightarrow> listener list" where
  "listeners_on s h ev =
     map (\<lambda>r. snd (snd r)) (filter (\<lambda>r. fst r = h \<and> fst (snd r) = ev) (listeners s))"

definition dispatch :: "page \<Rightarrow> handle \<Rightarrow> event \<Rightarrow> page" where
  "dispatch s h ev = call_listeners (listeners_on s h ev) h s"

text \<open>
  Modelled from the spec: one display-refresh cycle (sections 4.2 and 5), missing from
  the sources. The callbacks pending at its start run in the order they were scheduled
  and the pending list starts again empty.
\<close>

fun run_callbacks :: "frame_callback list \<Rightarrow> page \<Rightarrow> page" where
  "run_callbacks [] s = s"
| "run_callbacks (cb # cbs) s = run_callbacks cbs (state_of (run_callback cb s))"

definition run_frame :: "page \<Rightarrow> page" where
  "run_frame s = run_callbacks (raf_callbacks s) (s\<lparr>raf_callbacks := []\<rparr>)"

text \<open>
  Modelled from the spec: a keystroke on a Watched Element (sections 3 and 4.1), missing
  from the sources. The element has some current text value, its \<^verbatim>\<open>value\<close> attribute
  (\<open>None\<close> when it has none), at the moment its keydown listeners run.
\<close>

definition set_value :: "page \<Rightarrow> handle \<Rightarrow> js_string option \<Rightarrow> page" where
  "set_value s h v =
     s\<lparr>heap := (heap s)(h := (heap s h)\<lparr>attributes := (attributes (heap s h))(''value'' := v)\<rparr>)\<rparr>"

definition keystroke :: "page \<Rightarrow> handle \<times> js_string option \<Rightarrow> page" where
  "keystroke s k = dispatch (set_value s (fst k) (snd k)) (fst k) Keydown"

definition keystrokes :: "page \<Rightarrow> (handle \<times> js_string option) list \<Rightarrow> page" where
  "keystrokes s ks = foldl keystroke s ks"

text \<open>A sequence of direct calls of the two fade functions, in either spelling.\<close>

datatype fade_call = FadeIn | FadeOut

fun call_fade :: "fade_call \<Rightarrow> page \<Rightarrow> page" where
  "call_fade FadeIn s = fade_in s"
| "call_fade FadeOut s = fade_out s"

fun w_call_fade :: "fade_call \<Rightarrow> page \<Rightarrow> page" where
  "w_call_fade FadeIn s = w_fade_in s"
| "w_call_fade FadeOut s = w_fade_out s"

definition fade_calls :: "page \<Rightarrow> fade_call list \<Rightarrow> page" where
  "fade_calls s cs = foldl (\<lambda>s' c. call_fade c s') s cs"

definition w_fade_calls :: "page \<Rightarrow> fade_call list \<Rightarrow> page" where
  "w_fade_calls s cs = foldl (\<lambda>s' c. w_call_fade c s') s cs"

section \<open>Reading the opacity\<close>

text \<open>
  Modelled from the spec: the style an element shows (sections 3 and 4.2), missing from
  the sources. The inline style text is read as a CSS declaration list: \<^verbatim>\<open>name: value\<close>
  declarations separated by semicolons, names in either case, with optional white space
  around names and values; the opacity is the value of the last \<^verbatim>\<open>opacity\<close>
  declaration that is an unsigned decimal number, and \<open>None\<close> when there is none.
\<close>

definition is_space :: "16 word \<Rightarrow> bool" where
  "is_space c \<longleftrightarrow> c = 0x20 \<or> c = 0x09 \<or> c = 0x0A \<or> c = 0x0C \<or> c = 0x0D"

definition strip :: "js_string \<Rightarrow> js_string" where
  "strip cs = rev (dropWhile is_space (rev (dropWhile is_space cs)))"

fun split_on :: "16 word \<Rightarrow> js_string \<Rightarrow> js_string list" where
  "split_on d [] = [[]]"
| "split_on d (c # cs) =
     (if c = d then [] # split_on d cs
      else (case split_on d cs of [] \<Rightarrow> [[c]] | w # ws \<Rightarrow> (c # w) # ws))"

definition lower :: "16 word \<Rightarrow> 16 word" where
  "lower c = (if 0x41 \<le> c \<and> c \<le> 0x5A then c + 0x20 else c)"

definition parse_declaration :: "js_string \<Rightarrow> (js_string \<times> js_string) option" where
  "parse_declaration cs =
     (if 0x3A \<in> set cs
      then Some (map lower (strip (takeWhile (\<lambda>c. c \<noteq> 0x3A) cs)),
                 strip (drop 1 (dropWhile (\<lambda>c. c \<noteq> 0x3A) cs)))
      else None)"

definition is_digit :: "16 word \<Rightarrow> bool" where
  "is_digit c \<longleftrightarrow> 0x30 \<le> c \<and> c \<le> 0x39"

definition digits_value :: "js_string \<Rightarrow> nat" where
  "digits_value ds = foldl (\<lambda>n c. 10 * n + unat (c - 0x30)) 0 ds"

definition number :: "js_string \<Rightarrow> rat option" where
  "number cs =
     (let ip = takeWhile is_digit cs; rest = dropWhile is_digit cs
      in case rest of
           [] \<Rightarrow> if ip = [] then None else Some (of_nat (digits_value ip))
         | c # fp \<Rightarrow>
             if c = 0x2E \<and> fp \<noteq> [] \<and> list_all is_digit fp
             then Some (of_nat (digits_value ip) + of_nat (digits_value fp) / 10 ^ length fp)
             else None)"

definition style_opacity :: "js_string \<Rightarrow> rat option" where
  "style_opacity st =
     foldl (\<lambda>acc d. case parse_declaration d of
                       None \<Rightarrow> acc
                     | Some (p, v) \<Rightarrow>
                         if p = js_lit ''opacity''
                         then (case number v of None \<Rightarrow> acc | Some q \<Rightarrow> Some q)
                         else acc)
           None (split_on 0x3B st)"

definition opacity :: "page \<Rightarrow> handle \<Rightarrow> rat option" where
  "opacity s h = style_opacity (style (heap s h))"

text \<open>The opacity section 4.2 gives for each call: 0.999 for "in", 0.1 for "out".\<close>

fun fade_value :: "fade_call \<Rightarrow> rat" where
  "fade_value FadeIn = 999 / 1000"
| "fade_value FadeOut = 1 / 10"

text \<open>
  Read off the function bodies above, to state the properties: the style text each
  animation-frame callback assigns, and the callback each call schedules.
\<close>

fun frame_style :: "frame_callback \<Rightarrow> js_string" where
  "frame_style Fade_in_frame = js_lit ''opacity:0.999''"
| "frame_style Fade_out_frame = js_lit ''opacity:0.1''"
| "frame_style W_fade_in_frame = js_lit ''opacity: 0.999''"
| "frame_style W_fade_out_frame = js_lit ''opacity: 0.1''"

fun frame_of :: "fade_call \<Rightarrow> frame_callback" where
  "frame_of FadeIn = Fade_in_frame"
| "frame_of FadeOut = Fade_out_frame"

fun w_frame_of :: "fade_call \<Rightarrow> frame_callback" where
  "w_frame_of FadeIn = W_fade_in_frame"
| "w_frame_of FadeOut = W_fade_out_frame"

section \<open>Example pages\<close>

text \<open>
  A page with a \<^verbatim>\<open>strong\<close> element (handle 0) of the given content, an \<^verbatim>\<open>input\<close>
  element (handle 1) with the given \<^verbatim>\<open>value\<close> attribute and the keydown listener, and
  a \<^verbatim>\<open>div\<close> (handle 2) styled \<^verbatim>\<open>opacity:0.1\<close>; \<^verbatim>\<open>strong\<close> and \<^verbatim>\<open>div\<close> are bound.
\<close>

definition blank :: element where
  "blank = \<lparr>tag = [], attributes = Map.empty, innerHTML = [], style = []\<rparr>"

definition comment_page :: "js_string \<Rightarrow> js_string option \<Rightarrow> page" where
  "comment_page content val =
     \<lparr>heap = (\<lambda>_. blank)
        (0 := blank\<lparr>tag := ''strong'', innerHTML := content\<rparr>,
         1 := blank\<lparr>tag := ''input'', attributes := (\<lambda>_. None)(''value'' := val)\<rparr>,
         2 := blank\<lparr>tag := ''div'', style := js_lit ''opacity:0.1''\<rparr>),
      nodes = [0, 1, 2],
      listeners = [(1, Keydown, LengthCheck)],
      raf_callbacks = [],
      strong = Some 0,
      div_node = Some 2\<rparr>"

text \<open>
  A page with a \<^verbatim>\<open>div\<close> (handle 0) of the given style text and two buttons, as the
  fade script leaves it.
\<close>

definition fade_page :: "js_string \<Rightarrow> page" where
  "fade_page st =
     \<lparr>heap = (\<lambda>_. blank)
        (0 := blank\<lparr>tag := ''div'', style := st\<rparr>,
         1 := blank\<lparr>tag := ''button''\<rparr>,
         2 := blank\<lparr>tag := ''button''\<rparr>),
      nodes = [0, 1, 2],
      listeners = [(1, Click, Fade_out), (2, Click, Fade_in)],
      raf_callbacks = [],
      strong = None,
      div_node = Some 0\<rparr>"

text \<open>A document with no element, and one with two buttons and nothing else.\<close>

definition empty_page :: page where
  "empty_page =
     \<lparr>heap = (\<lambda>_. blank), nodes = [], listeners = [], raf_callbacks = [],
      strong = None, div_node = None\<rparr>"

definition two_buttons_page :: page where
  "two_buttons_page =
     \<lparr>heap = (\<lambda>_. blank)(0 := blank\<lparr>tag := ''button''\<rparr>, 1 := blank\<lparr>tag := ''button''\<rparr>),
      nodes = [0, 1], listeners = [], raf_callbacks = [],
      strong = None, div_node = None\<rparr>"

section \<open>The example pages are what the scripts set up\<close>

lemma comment_js_comment_page:
  "comment_js ((comment_page content val)\<lparr>listeners := [], strong := None\<rparr>)
     = Normal (comment_page content val)"
  by (simp add: comment_js_def comment_page_def querySelectorAll_def index_def blank_def
      addEventListener_def comment_loop.simps)

lemma fade_js_fade_page:
  "fade_js ((fade_page st)\<lparr>listeners := [], div_node := None\<rparr>) = Normal (fade_page st)"
  by (simp add: fade_js_def fade_page_def querySelectorAll_def index_def blank_def
      addEventListener_def)

section \<open>The opacity of the style texts of the scripts\<close>

lemma style_opacity_literals:
  "style_opacity (js_lit ''opacity:0.999'') = Some (999 / 1000)"
  "style_opacity (js_lit ''opacity: 0.999'') = Some (999 / 1000)"
  "style_opacity (js_lit ''opacity:0.1'') = Some (1 / 10)"
  "style_opacity (js_lit ''opacity: 0.1'') = Some (1 / 10)"
  by (simp_all add: style_opacity_def js_lit_def parse_declaration_def number_def strip_def
      is_space_def is_digit_def digits_value_def lower_def)

section \<open>Properties of the length check\<close>

text \<open>
  C1. For every string \<open>S\<close> longer than 10 code units, the keydown handler called on an
  element whose \<^verbatim>\<open>value\<close> is \<open>S\<close> completes and leaves the content of the Feedback
  Element (the element \<^verbatim>\<open>strong\<close> is bound to) equal to \<^verbatim>\<open>"Comment too long!"\<close>.
\<close>

theorem lengthCheck_long:
  assumes "getAttribute s this ''value'' = Some S"
    and "length S > 10"
    and "strong s = Some fb"
  shows "lengthCheck this s = Normal (set_innerHTML s fb (js_lit ''Comment too long!''))
       \<and> innerHTML (heap (state_of (lengthCheck this s)) fb) = js_lit ''Comment too long!''"
  using assms by (simp add: lengthCheck_def set_innerHTML_def)

theorem lengthCheck_long_witness:
  "getAttribute (comment_page [] (Some (js_lit ''helloworld!''))) 1 ''value''
     = Some (js_lit ''helloworld!'')
   \<and> length (js_lit ''helloworld!'') > 10
   \<and> strong (comment_page [] (Some (js_lit ''helloworld!''))) = Some 0
   \<and> innerHTML (heap (state_of (lengthCheck 1 (comment_page [] (Some (js_lit ''helloworld!''))))) 0)
     = js_lit ''Comment too long!''"
proof -
  let ?p = "comment_page [] (Some (js_lit ''helloworld!''))"
  have a: "getAttribute ?p 1 ''value'' = Some (js_lit ''helloworld!'')"
    by (simp add: getAttribute_def comment_page_def)
  have b: "length (js_lit ''helloworld!'') > 10"
    by (simp add: js_lit_def)
  have c: "strong ?p = Some 0"
    by (simp add: comment_page_def)
  from lengthCheck_long [OF a b c] a b c show ?thesis by blast
qed

text \<open>
  C2. For every string \<open>S\<close> of at most 10 code units, the keydown handler called on an
  element whose \<^verbatim>\<open>value\<close> is \<open>S\<close> completes with the page as it was: whatever the
  Feedback Element showed before, a warning included, it still shows.
\<close>

theorem lengthCheck_short:
  assumes "getAttribute s this ''value'' = Some S"
    and "length S \<le> 10"
  shows "lengthCheck this s = Normal s
       \<and> innerHTML (heap (state_of (lengthCheck this s)) fb) = innerHTML (heap s fb)"
  using assms by (simp add: lengthCheck_def)

theorem lengthCheck_short_witness:
  "getAttribute (comment_page (js_lit ''Comment too long!'') (Some (js_lit ''hello''))) 1 ''value''
     = Some (js_lit ''hello'')
   \<and> length (js_lit ''hello'') \<le> 10
   \<and> innerHTML (heap (state_of (lengthCheck 1
        (comment_page (js_lit ''Comment too long!'') (Some (js_lit ''hello''))))) 0)
     = js_lit ''Comment too long!''"
proof -
  let ?p = "comment_page (js_lit ''Comment too long!'') (Some (js_lit ''hello''))"
  have a: "getAttribute ?p 1 ''value'' = Some (js_lit ''hello'')"
    by (simp add: getAttribute_def comment_page_def)
  have b: "length (js_lit ''hello'') \<le> 10"
    by (simp add: js_lit_def)
  have c: "innerHTML (heap ?p 0) = js_lit ''Comment too long!''"
    by (simp add: comment_page_def)
  from lengthCheck_short [OF a b, of 0] a b c show ?thesis by metis
qed

text \<open>
  C3, as stated, fails: on an input element with no \<^verbatim>\<open>value\<close> attribute the attribute
  read gives \<^verbatim>\<open>null\<close> and the handler throws a \<^verbatim>\<open>TypeError\<close>.
\<close>

theorem lengthCheck_absent_value_counterexample:
  "getAttribute (comment_page [] None) 1 ''value'' = None
   \<and> thrown (lengthCheck 1 (comment_page [] None)) = Some TypeError"
  by (simp add: lengthCheck_def getAttribute_def comment_page_def)

text \<open>
  C3, amended. The keydown handler has two error conditions. When the element has no
  \<^verbatim>\<open>value\<close> attribute, reading the length of \<^verbatim>\<open>null\<close> throws a \<^verbatim>\<open>TypeError\<close> before
  anything is written, so the Feedback Element is not written. When the value is longer
  than 10 and \<^verbatim>\<open>strong\<close> is \<^verbatim>\<open>undefined\<close>, the assignment throws a \<^verbatim>\<open>TypeError\<close>. In
  every other case the handler completes; whenever it throws, the page is as it was.
\<close>

theorem lengthCheck_throws:
  "(getAttribute s this ''value'' = None \<longrightarrow> lengthCheck this s = Throw TypeError s)
   \<and> thrown (lengthCheck this s) =
       (case getAttribute s this ''value'' of
          None \<Rightarrow> Some TypeError
        | Some S \<Rightarrow> if length S > 10 \<and> strong s = None then Some TypeError else None)
   \<and> (thrown (lengthCheck this s) \<noteq> None \<longrightarrow> state_of (lengthCheck this s) = s)"
  by (auto simp add: lengthCheck_def split: option.splits)

theorem lengthCheck_throws_witness:
  "getAttribute (comment_page [] None) 1 ''value'' = None
   \<and> lengthCheck 1 (comment_page [] None) = Throw TypeError (comment_page [] None)"
proof -
  have a: "getAttribute (comment_page [] None) 1 ''value'' = None"
    by (simp add: getAttribute_def comment_page_def)
  from lengthCheck_throws [of "comment_page [] None" 1] a show ?thesis by blast
qed

text \<open>
  C10. For every element \<open>this\<close> and whatever its value, the keydown handler changes at
  most the content of the Feedback Element: every attribute of every element (the
  \<^verbatim>\<open>value\<close> of the Watched Element among them), every style and so every opacity (the
  Toggle Target's among them), the listeners, the pending callbacks and the globals are
  as before, and the only content that can differ is that of the element \<^verbatim>\<open>strong\<close>
  is bound to.
\<close>

theorem lengthCheck_writes_content_only:
  "getAttribute (state_of (lengthCheck this s)) h name = getAttribute s h name
   \<and> style (heap (state_of (lengthCheck this s)) h) = style (heap s h)
   \<and> opacity (state_of (lengthCheck this s)) h = opacity s h
   \<and> tag (heap (state_of (lengthCheck this s)) h) = tag (heap s h)
   \<and> innerHTML (heap (state_of (lengthCheck this s)) h) =
       (if strong s = Some h \<and> (\<exists>S. getAttribute s this ''value'' = Some S \<and> length S > 10)
        then js_lit ''Comment too long!'' else innerHTML (heap s h))
   \<and> nodes (state_of (lengthCheck this s)) = nodes s
   \<and> listeners (state_of (lengthCheck this s)) = listeners s
   \<and> raf_callbacks (state_of (lengthCheck this s)) = raf_callbacks s
   \<and> strong (state_of (lengthCheck this s)) = strong s
   \<and> div_node (state_of (lengthCheck this s)) = div_node s"
  by (auto simp add: lengthCheck_def set_innerHTML_def getAttribute_def opacity_def
      split: option.splits)

theorem lengthCheck_writes_content_only_witness:
  "getAttribute (state_of (lengthCheck 1 (comment_page [] (Some (js_lit ''helloworld!''))))) 1 ''value''
     = Some (js_lit ''helloworld!'')
   \<and> opacity (state_of (lengthCheck 1 (comment_page [] (Some (js_lit ''helloworld!''))))) 2
     = Some (1 / 10)
   \<and> innerHTML (heap (state_of (lengthCheck 1 (comment_page [] (Some (js_lit ''helloworld!''))))) 0)
     = js_lit ''Comment too long!''"
proof -
  let ?p = "comment_page [] (Some (js_lit ''helloworld!''))"
  have a: "getAttribute ?p 1 ''value'' = Some (js_lit ''helloworld!'')"
    by (simp add: getAttribute_def comment_page_def)
  have b: "length (js_lit ''helloworld!'') > 10"
    by (simp add: js_lit_def)
  have c: "strong ?p = Some 0"
    by (simp add: comment_page_def)
  have d: "opacity ?p 2 = Some (1 / 10)"
    by (simp add: opacity_def comment_page_def style_opacity_literals)
  from lengthCheck_writes_content_only [of 1 ?p 1 "''value''"]
    lengthCheck_writes_content_only [of 1 ?p 2 "''value''"]
    lengthCheck_writes_content_only [of 1 ?p 0 "''value''"] a b c d
  show ?thesis by simp
qed

section \<open>Properties of the fade script\<close>

lemma style_opacity_frame_of:
  "style_opacity (frame_style (frame_of c)) = Some (fade_value c)"
  "style_opacity (frame_style (w_frame_of c)) = Some (fade_value c)"
  by (cases c; simp add: style_opacity_literals)+

lemma run_callback_eq:
  "run_callback cb s =
     (case div_node s of
        None \<Rightarrow> Throw TypeError s
      | Some d \<Rightarrow> Normal (set_style s d (frame_style cb)))"
  by (cases cb; simp split: option.split)

lemma set_style_twice: "set_style (set_style s d x) d y = set_style s d y"
  by (simp add: set_style_def)

lemma div_node_set_style: "div_node (set_style s d x) = div_node s"
  by (simp add: set_style_def)

lemma opacity_set_style:
  "opacity (set_style s d x) h = (if h = d then style_opacity x else opacity s h)"
  by (simp add: set_style_def opacity_def)

lemma run_callbacks_undefined: "div_node s = None \<Longrightarrow> run_callbacks cbs s = s"
  by (induction cbs) (simp_all add: run_callback_eq)

lemma run_callbacks_last:
  "div_node s = Some d \<Longrightarrow> cbs \<noteq> [] \<Longrightarrow>
     run_callbacks cbs s = set_style s d (frame_style (last cbs))"
proof (induction cbs arbitrary: s)
  case Nil
  then show ?case by simp
next
  case (Cons cb cbs)
  show ?case
  proof (cases "cbs = []")
    case True
    with Cons.prems show ?thesis by (simp add: run_callback_eq)
  next
    case False
    have "run_callbacks (cb # cbs) s = run_callbacks cbs (set_style s d (frame_style cb))"
      using Cons.prems by (simp add: run_callback_eq)
    also have "\<dots> = set_style (set_style s d (frame_style cb)) d (frame_style (last cbs))"
      using Cons.prems False by (intro Cons.IH) (simp_all add: div_node_set_style)
    finally show ?thesis using False by (simp add: set_style_twice)
  qed
qed

lemma fade_calls_eq:
  "fade_calls s cs = s\<lparr>raf_callbacks := raf_callbacks s @ map frame_of cs\<rparr>"
proof (induction cs arbitrary: s)
  case Nil
  then show ?case by (simp add: fade_calls_def)
next
  case (Cons c cs)
  have "fade_calls s (c # cs) = fade_calls (call_fade c s) cs"
    by (simp add: fade_calls_def)
  then show ?case
    by (cases c) (simp_all add: Cons.IH fade_in_def fade_out_def requestAnimationFrame_def)
qed

lemma w_fade_calls_eq:
  "w_fade_calls s cs = s\<lparr>raf_callbacks := raf_callbacks s @ map w_frame_of cs\<rparr>"
proof (induction cs arbitrary: s)
  case Nil
  then show ?case by (simp add: w_fade_calls_def)
next
  case (Cons c cs)
  have "w_fade_calls s (c # cs) = w_fade_calls (w_call_fade c s) cs"
    by (simp add: w_fade_calls_def)
  then show ?case
    by (cases c) (simp_all add: Cons.IH w_fade_in_def w_fade_out_def requestAnimationFrame_def)
qed

lemma run_frame_fade_calls:
  assumes "div_node s = Some d" and "cs \<noteq> []"
  shows "run_frame (fade_calls s cs)
           = set_style (s\<lparr>raf_callbacks := []\<rparr>) d (frame_style (frame_of (last cs)))"
    and "run_frame (w_fade_calls s cs)
           = set_style (s\<lparr>raf_callbacks := []\<rparr>) d (frame_style (w_frame_of (last cs)))"
  using assms
  by (simp_all add: run_frame_def fade_calls_eq w_fade_calls_eq run_callbacks_last last_map)

lemma style_set_style:
  "style (heap (set_style s d x) h) = (if h = d then x else style (heap s h))"
  by (simp add: set_style_def)

text \<open>
  C4. Whatever the style of the Toggle Target (the element \<^verbatim>\<open>div\<close> is bound to) and
  whatever is pending, calling \<^verbatim>\<open>fade_in\<close> and running one display-refresh cycle
  leaves its style text \<^verbatim>\<open>opacity:0.999\<close> and its opacity 0.999; calling \<^verbatim>\<open>fade_out\<close>
  and running one cycle leaves its style text \<^verbatim>\<open>opacity:0.1\<close> and its opacity 0.1.
\<close>

theorem fade_then_frame:
  assumes "div_node s = Some d"
  shows "style (heap (run_frame (fade_in s)) d) = js_lit ''opacity:0.999''
       \<and> opacity (run_frame (fade_in s)) d = Some (999 / 1000)
       \<and> style (heap (run_frame (fade_out s)) d) = js_lit ''opacity:0.1''
       \<and> opacity (run_frame (fade_out s)) d = Some (1 / 10)"
  using assms run_frame_fade_calls(1) [of s d "[FadeIn]"]
    run_frame_fade_calls(1) [of s d "[FadeOut]"]
  by (simp add: fade_calls_def opacity_set_style style_set_style style_opacity_literals)

theorem fade_then_frame_witness:
  "div_node (fade_page (js_lit ''opacity:0.5'')) = Some 0
   \<and> opacity (run_frame (fade_in (fade_page (js_lit ''opacity:0.5'')))) 0 = Some (999 / 1000)
   \<and> opacity (run_frame (fade_out (fade_page (js_lit ''opacity:0.5'')))) 0 = Some (1 / 10)"
proof -
  have a: "div_node (fade_page (js_lit ''opacity:0.5'')) = Some 0"
    by (simp add: fade_page_def)
  from fade_then_frame [OF a] a show ?thesis by blast
qed

text \<open>
  C5. Neither \<^verbatim>\<open>fade_in\<close> nor \<^verbatim>\<open>fade_out\<close> (in either spelling) touches an element:
  when the call returns the heap, and with it every opacity, is as before, and the one
  change is the callback added at the end of the pending list. The style changes when that
  callback runs: it assigns the style of the element \<^verbatim>\<open>div\<close> is bound to.
\<close>

theorem fade_deferred:
  "heap (fade_in s) = heap s \<and> opacity (fade_in s) h = opacity s h
   \<and> raf_callbacks (fade_in s) = raf_callbacks s @ [Fade_in_frame]
   \<and> heap (fade_out s) = heap s \<and> opacity (fade_out s) h = opacity s h
   \<and> raf_callbacks (fade_out s) = raf_callbacks s @ [Fade_out_frame]
   \<and> heap (w_fade_in s) = heap s \<and> opacity (w_fade_in s) h = opacity s h
   \<and> raf_callbacks (w_fade_in s) = raf_callbacks s @ [W_fade_in_frame]
   \<and> heap (w_fade_out s) = heap s \<and> opacity (w_fade_out s) h = opacity s h
   \<and> raf_callbacks (w_fade_out s) = raf_callbacks s @ [W_fade_out_frame]
   \<and> style (heap (state_of (run_callback cb s)) h)
       = (if div_node s = Some h then frame_style cb else style (heap s h))"
proof -
  have "style (heap (state_of (run_callback cb s)) h)
       = (if div_node s = Some h then frame_style cb else style (heap s h))"
    by (cases "div_node s") (auto simp add: run_callback_eq style_set_style)
  then show ?thesis
    by (simp add: fade_in_def fade_out_def w_fade_in_def w_fade_out_def
        requestAnimationFrame_def opacity_def)
qed

theorem fade_deferred_witness:
  "opacity (fade_in (fade_page (js_lit ''opacity:0.1''))) 0 = Some (1 / 10)
   \<and> opacity (fade_out (fade_page (js_lit ''opacity:0.999''))) 0 = Some (999 / 1000)
   \<and> raf_callbacks (fade_in (fade_page (js_lit ''opacity:0.1''))) = [Fade_in_frame]"
proof -
  have a: "opacity (fade_page (js_lit ''opacity:0.1'')) 0 = Some (1 / 10)"
    by (simp add: opacity_def fade_page_def style_opacity_literals)
  have b: "opacity (fade_page (js_lit ''opacity:0.999'')) 0 = Some (999 / 1000)"
    by (simp add: opacity_def fade_page_def style_opacity_literals)
  have c: "raf_callbacks (fade_page st) = []" for st
    by (simp add: fade_page_def)
  from fade_deferred [of "fade_page (js_lit ''opacity:0.1'')" 0]
    fade_deferred [of "fade_page (js_lit ''opacity:0.999'')" 0] a b c
  show ?thesis by simp
qed

text \<open>
  C6. For every non-empty sequence of \<^verbatim>\<open>fade_in\<close> and \<^verbatim>\<open>fade_out\<close> calls made before
  one display-refresh cycle, every call adds its own callback to the pending list, in
  call order and none dropped, and after the cycle the opacity of the Toggle Target is the
  value of the last call: 0.999 after \<^verbatim>\<open>fade_in\<close>, 0.1 after \<^verbatim>\<open>fade_out\<close>.
\<close>

theorem fade_calls_last_wins:
  assumes "cs \<noteq> []" and "div_node s = Some d"
  shows "raf_callbacks (fade_calls s cs) = raf_callbacks s @ map frame_of cs
       \<and> length (raf_callbacks (fade_calls s cs)) = length (raf_callbacks s) + length cs
       \<and> style (heap (run_frame (fade_calls s cs)) d) = frame_style (frame_of (last cs))
       \<and> opacity (run_frame (fade_calls s cs)) d = Some (fade_value (last cs))"
proof -
  have "raf_callbacks (fade_calls s cs) = raf_callbacks s @ map frame_of cs"
    by (simp add: fade_calls_eq)
  moreover from this
  have "length (raf_callbacks (fade_calls s cs)) = length (raf_callbacks s) + length cs"
    by simp
  moreover have "style (heap (run_frame (fade_calls s cs)) d) = frame_style (frame_of (last cs))"
    using assms by (simp add: run_frame_fade_calls style_set_style)
  moreover have "opacity (run_frame (fade_calls s cs)) d = Some (fade_value (last cs))"
    using assms by (simp add: run_frame_fade_calls opacity_set_style style_opacity_frame_of)
  ultimately show ?thesis by blast
qed

theorem fade_calls_last_wins_witness:
  "[FadeIn, FadeIn, FadeOut] \<noteq> []
   \<and> div_node (fade_page []) = Some 0
   \<and> raf_callbacks (fade_calls (fade_page []) [FadeIn, FadeIn, FadeOut])
       = [Fade_in_frame, Fade_in_frame, Fade_out_frame]
   \<and> opacity (run_frame (fade_calls (fade_page []) [FadeIn, FadeIn, FadeOut])) 0 = Some (1 / 10)"
proof -
  have a: "[FadeIn, FadeIn, FadeOut] \<noteq> []" by simp
  have b: "div_node (fade_page []) = Some 0" by (simp add: fade_page_def)
  have c: "raf_callbacks (fade_page []) = []" by (simp add: fade_page_def)
  from fade_calls_last_wins [OF a b] a b c show ?thesis by simp
qed

text \<open>
  C9. The two spellings of the fade script agree: for every page, every sequence of
  calls and every element, the opacity after the calls and one display-refresh cycle is
  the same in both, and when the sequence is not empty the opacity of the Toggle Target is
  in both the value of the last call (0.999 for \<^verbatim>\<open>fade_in\<close>, 0.1 for \<^verbatim>\<open>fade_out\<close>).
  The style texts differ by the space after the colon.
\<close>

theorem fade_variants_agree:
  "opacity (run_frame (fade_calls s cs)) h = opacity (run_frame (w_fade_calls s cs)) h
   \<and> (cs \<noteq> [] \<and> div_node s = Some d \<longrightarrow>
        opacity (run_frame (fade_calls s cs)) d = Some (fade_value (last cs))
        \<and> opacity (run_frame (w_fade_calls s cs)) d = Some (fade_value (last cs)))"
proof -
  have eq: "opacity (run_frame (fade_calls s cs)) h = opacity (run_frame (w_fade_calls s cs)) h"
  proof (cases "div_node s")
    case None
    then show ?thesis
      by (simp add: run_frame_def fade_calls_eq w_fade_calls_eq run_callbacks_undefined opacity_def)
  next
    case (Some d0)
    show ?thesis
    proof (cases "cs = []")
      case True
      then show ?thesis by (simp add: fade_calls_def w_fade_calls_def)
    next
      case False
      with Some show ?thesis
        by (simp add: run_frame_fade_calls opacity_set_style style_opacity_frame_of)
    qed
  qed
  moreover have "opacity (run_frame (fade_calls s cs)) d = Some (fade_value (last cs))
      \<and> opacity (run_frame (w_fade_calls s cs)) d = Some (fade_value (last cs))"
    if "cs \<noteq> []" "div_node s = Some d"
    using that by (simp add: run_frame_fade_calls opacity_set_style style_opacity_frame_of)
  ultimately show ?thesis by blast
qed

theorem fade_variants_agree_witness:
  "[FadeOut, FadeIn] \<noteq> [] \<and> div_node (fade_page []) = Some 0
   \<and> opacity (run_frame (fade_calls (fade_page []) [FadeOut, FadeIn])) 0 = Some (999 / 1000)
   \<and> opacity (run_frame (w_fade_calls (fade_page []) [FadeOut, FadeIn])) 0 = Some (999 / 1000)"
proof -
  have a: "[FadeOut, FadeIn] \<noteq> []" by simp
  have b: "div_node (fade_page []) = Some 0" by (simp add: fade_page_def)
  from fade_variants_agree [of "fade_page []" "[FadeOut, FadeIn]" 0 0] a b show ?thesis by simp
qed

section \<open>Properties of the top-level scripts\<close>

lemma querySelectorAll_globals [simp]:
  "querySelectorAll (s\<lparr>strong := x\<rparr>) sel = querySelectorAll s sel"
  "querySelectorAll (s\<lparr>div_node := y\<rparr>) sel = querySelectorAll s sel"
  "querySelectorAll (addEventListener s h ev f) sel = querySelectorAll s sel"
  by (simp_all add: querySelectorAll_def addEventListener_def)

lemma addEventListener_globals [simp]:
  "strong (addEventListener s h ev f) = strong s"
  "div_node (addEventListener s h ev f) = div_node s"
  "heap (addEventListener s h ev f) = heap s"
  by (simp_all add: addEventListener_def)

lemma comment_loop_globals:
  "strong (comment_loop s inputs i) = strong s \<and> heap (comment_loop s inputs i) = heap s"
proof (induction s inputs i rule: comment_loop.induct)
  case (1 s inputs i)
  show ?case
  proof (cases "i < length inputs")
    case True
    with 1 show ?thesis
      by (simp add: comment_loop.simps [of s inputs i])
  next
    case False
    then show ?thesis by (simp add: comment_loop.simps [of s inputs i])
  qed
qed

lemma comment_loop_listeners:
  "set (listeners (comment_loop s inputs i))
     = set (listeners s) \<union> (\<lambda>h. (h, Keydown, LengthCheck)) ` set (drop i inputs)"
proof (induction s inputs i rule: comment_loop.induct)
  case (1 s inputs i)
  show ?case
  proof (cases "i < length inputs")
    case True
    have d: "drop i inputs = inputs ! i # drop (Suc i) inputs"
      using True by (simp add: Cons_nth_drop_Suc)
    have "set (listeners (addEventListener s (inputs ! i) Keydown LengthCheck))
            = insert (inputs ! i, Keydown, LengthCheck) (set (listeners s))"
      by (auto simp add: addEventListener_def)
    with 1 True d show ?thesis by (simp add: comment_loop.simps [of s inputs i]) 
  next
    case False
    then show ?thesis by (simp add: comment_loop.simps [of s inputs i])
  qed
qed

text \<open>
  C7, as stated, fails: on a document with no element \<^verbatim>\<open>comment.js\<close> completes
  without an error although the Feedback Element and every Watched Element are missing,
  and on a document with two buttons and no \<^verbatim>\<open>div\<close> the fade script completes without
  an error although the Toggle Target is missing.
\<close>

theorem scripts_missing_targets_counterexample:
  "querySelectorAll empty_page ''strong'' = []
   \<and> querySelectorAll empty_page ''input'' = []
   \<and> thrown (comment_js empty_page) = None
   \<and> querySelectorAll two_buttons_page ''div'' = []
   \<and> thrown (fade_js two_buttons_page) = None"
  by (simp add: comment_js_def fade_js_def querySelectorAll_def index_def empty_page_def
      two_buttons_page_def blank_def addEventListener_def comment_loop.simps [of _ "[]"])

text \<open>
  C7, amended. Initialization does not check for its target elements. \<^verbatim>\<open>comment.js\<close>
  always completes without an error: \<^verbatim>\<open>strong\<close> becomes the first \<^verbatim>\<open>strong\<close> element or
  \<^verbatim>\<open>undefined\<close> when there is none, and with no \<^verbatim>\<open>input\<close> element no listener is added.
  The fade script, in either spelling, binds \<^verbatim>\<open>div\<close> to the first \<^verbatim>\<open>div\<close> element or
  \<^verbatim>\<open>undefined\<close> without an error, and throws a \<^verbatim>\<open>TypeError\<close> exactly when the document
  has fewer than two buttons.
\<close>

theorem scripts_missing_targets:
  "thrown (comment_js s) = None
   \<and> strong (state_of (comment_js s)) = index (querySelectorAll s ''strong'') 0
   \<and> (querySelectorAll s ''input'' = [] \<longrightarrow> listeners (state_of (comment_js s)) = listeners s)
   \<and> thrown (fade_js s) = (if length (querySelectorAll s ''button'') < 2 then Some TypeError else None)
   \<and> div_node (state_of (fade_js s)) = index (querySelectorAll s ''div'') 0
   \<and> thrown (w_fade_js s) = (if length (querySelectorAll s ''button'') < 2 then Some TypeError else None)
   \<and> div_node (state_of (w_fade_js s)) = index (querySelectorAll s ''div'') 0"
proof -
  have c1: "thrown (comment_js s) = None"
    by (simp add: comment_js_def Let_def)
  have c2: "strong (state_of (comment_js s)) = index (querySelectorAll s ''strong'') 0"
    by (simp add: comment_js_def Let_def comment_loop_globals)
  have c3: "listeners (state_of (comment_js s)) = listeners s" if "querySelectorAll s ''input'' = []"
    using that by (simp add: comment_js_def Let_def comment_loop.simps [of _ "[]"])
  have f1: "thrown (fade_js s) = (if length (querySelectorAll s ''button'') < 2 then Some TypeError else None)"
    by (simp add: fade_js_def Let_def index_def)
  have f2: "div_node (state_of (fade_js s)) = index (querySelectorAll s ''div'') 0"
    by (simp add: fade_js_def Let_def index_def)
  have w1: "thrown (w_fade_js s) = (if length (querySelectorAll s ''button'') < 2 then Some TypeError else None)"
    by (simp add: w_fade_js_def Let_def index_def)
  have w2: "div_node (state_of (w_fade_js s)) = index (querySelectorAll s ''div'') 0"
    by (simp add: w_fade_js_def Let_def index_def)
  from c1 c2 c3 f1 f2 w1 w2 show ?thesis by blast
qed

theorem scripts_missing_targets_witness:
  "querySelectorAll empty_page ''input'' = []
   \<and> thrown (comment_js empty_page) = None
   \<and> strong (state_of (comment_js empty_page)) = None
   \<and> listeners (state_of (comment_js empty_page)) = []
   \<and> thrown (fade_js empty_page) = Some TypeError
   \<and> div_node (state_of (fade_js empty_page)) = None"
proof -
  have a: "querySelectorAll empty_page sel = []" for sel
    by (simp add: querySelectorAll_def empty_page_def)
  have b: "listeners empty_page = []"
    by (simp add: empty_page_def)
  from scripts_missing_targets [of empty_page] a b show ?thesis
    by (simp add: index_def)
qed

section \<open>Sequences of keystrokes\<close>

lemma call_listener_frame:
  "strong (state_of (call_listener f this s)) = strong s"
  "listeners (state_of (call_listener f this s)) = listeners s"
  "getAttribute (state_of (call_listener f this s)) h name = getAttribute s h name"
  by (cases f; simp add: lengthCheck_def set_innerHTML_def getAttribute_def fade_in_def
      fade_out_def w_fade_in_def w_fade_out_def requestAnimationFrame_def
      split: option.splits)+

lemma call_listener_content:
  "strong s = Some fb \<Longrightarrow>
   innerHTML (heap (state_of (call_listener f this s)) fb) =
     (if f = LengthCheck \<and> (\<exists>S. getAttribute s this ''value'' = Some S \<and> length S > 10)
      then js_lit ''Comment too long!'' else innerHTML (heap s fb))"
  by (cases f; simp add: lengthCheck_def set_innerHTML_def fade_in_def
      fade_out_def w_fade_in_def w_fade_out_def requestAnimationFrame_def
      split: option.splits)

lemma call_listeners_frame:
  "strong (call_listeners fs this s) = strong s"
  "listeners (call_listeners fs this s) = listeners s"
  by (induction fs arbitrary: s) (simp_all add: call_listener_frame)

lemma call_listeners_content:
  "strong s = Some fb \<Longrightarrow>
   innerHTML (heap (call_listeners fs this s) fb) =
     (if LengthCheck \<in> set fs \<and> (\<exists>S. getAttribute s this ''value'' = Some S \<and> length S > 10)
      then js_lit ''Comment too long!'' else innerHTML (heap s fb))"
proof (induction fs arbitrary: s)
  case Nil
  then show ?case by simp
next
  case (Cons f fs)
  define t where "t = state_of (call_listener f this s)"
  have st: "strong t = Some fb"
    using Cons.prems by (simp add: t_def call_listener_frame)
  have attr: "getAttribute t this ''value'' = getAttribute s this ''value''"
    by (simp add: t_def call_listener_frame)
  have one: "innerHTML (heap t fb) =
     (if f = LengthCheck \<and> (\<exists>S. getAttribute s this ''value'' = Some S \<and> length S > 10)
      then js_lit ''Comment too long!'' else innerHTML (heap s fb))"
    unfolding t_def by (rule call_listener_content [OF Cons.prems])
  have "call_listeners (f # fs) this s = call_listeners fs this t"
    by (simp add: t_def)
  then have "innerHTML (heap (call_listeners (f # fs) this s) fb) =
     (if LengthCheck \<in> set fs \<and> (\<exists>S. getAttribute s this ''value'' = Some S \<and> length S > 10)
      then js_lit ''Comment too long!'' else innerHTML (heap t fb))"
    using Cons.IH [OF st] by (simp only: attr)
  with one show ?case
    by (cases "f = LengthCheck") auto
qed

lemma keystroke_frame:
  "strong (keystroke s k) = strong s"
  "listeners_on (keystroke s k) h ev = listeners_on s h ev"
  by (simp_all add: keystroke_def dispatch_def call_listeners_frame listeners_on_def set_value_def)

lemma keystroke_content:
  assumes "strong s = Some fb"
  shows "innerHTML (heap (keystroke s k) fb) =
     (if LengthCheck \<in> set (listeners_on s (fst k) Keydown) \<and> (\<exists>S. snd k = Some S \<and> length S > 10)
      then js_lit ''Comment too long!'' else innerHTML (heap s fb))"
proof -
  let ?t = "set_value s (fst k) (snd k)"
  have t: "strong ?t = Some fb"
    using assms by (simp add: set_value_def)
  have l: "listeners_on ?t (fst k) Keydown = listeners_on s (fst k) Keydown"
    by (simp add: listeners_on_def set_value_def)
  have v: "getAttribute ?t (fst k) ''value'' = snd k"
    by (simp add: getAttribute_def set_value_def)
  have c: "innerHTML (heap ?t fb) = innerHTML (heap s fb)"
    by (simp add: set_value_def)
  have "innerHTML (heap (keystroke s k) fb)
          = innerHTML (heap (call_listeners (listeners_on ?t (fst k) Keydown) (fst k) ?t) fb)"
    by (simp add: keystroke_def dispatch_def)
  also have "\<dots> =
     (if LengthCheck \<in> set (listeners_on ?t (fst k) Keydown)
         \<and> (\<exists>S. getAttribute ?t (fst k) ''value'' = Some S \<and> length S > 10)
      then js_lit ''Comment too long!'' else innerHTML (heap ?t fb))"
    by (rule call_listeners_content [OF t])
  finally show ?thesis
    by (simp only: l v c)
qed

lemma keystrokes_content_aux:
  "strong s = Some fb \<Longrightarrow>
   innerHTML (heap (keystrokes s ks) fb) =
     (if \<exists>k\<in>set ks. LengthCheck \<in> set (listeners_on s (fst k) Keydown)
                      \<and> (\<exists>S. snd k = Some S \<and> length S > 10)
      then js_lit ''Comment too long!'' else innerHTML (heap s fb))"
proof (induction ks arbitrary: s)
  case Nil
  then show ?case by (simp add: keystrokes_def)
next
  case (Cons k ks)
  define t where "t = keystroke s k"
  define P where "P = (\<lambda>k :: handle \<times> js_string option. LengthCheck \<in> set (listeners_on s (fst k) Keydown)
                      \<and> (\<exists>S. snd k = Some S \<and> length S > 10))"
  have st: "strong t = Some fb"
    using Cons.prems by (simp add: t_def keystroke_frame)
  have ls: "listeners_on t h ev = listeners_on s h ev" for h ev
    by (simp add: t_def keystroke_frame)
  have one: "innerHTML (heap t fb) =
     (if P k then js_lit ''Comment too long!'' else innerHTML (heap s fb))"
    unfolding t_def P_def by (rule keystroke_content [OF Cons.prems])
  have "keystrokes s (k # ks) = keystrokes t ks"
    by (simp add: keystrokes_def t_def)
  then have two: "innerHTML (heap (keystrokes s (k # ks)) fb) =
     (if \<exists>k\<in>set ks. P k then js_lit ''Comment too long!'' else innerHTML (heap t fb))"
    unfolding P_def using Cons.IH [OF st] by (simp only: ls)
  have "innerHTML (heap (keystrokes s (k # ks)) fb) =
     (if \<exists>k\<in>set (k # ks). P k then js_lit ''Comment too long!'' else innerHTML (heap s fb))"
    unfolding two one by auto
  then show ?case
    unfolding P_def .
qed

text \<open>
  C8, as stated, fails: starting from an empty Feedback Element, after a keystroke with
  the value \<^verbatim>\<open>helloworld!\<close> and then one with the value \<^verbatim>\<open>hello\<close> the content is the
  warning of the earlier keystroke, while the most recent keystroke alone leaves the
  content empty.
\<close>

theorem keystrokes_last_event_counterexample:
  "innerHTML (heap (keystrokes (comment_page [] None)
       [(1, Some (js_lit ''helloworld!'')), (1, Some (js_lit ''hello''))]) 0)
     = js_lit ''Comment too long!''
   \<and> innerHTML (heap (keystrokes (comment_page [] None) [(1, Some (js_lit ''hello''))]) 0) = []
   \<and> js_lit ''Comment too long!'' \<noteq> []"
  by (simp add: keystrokes_def keystroke_def dispatch_def listeners_on_def set_value_def
      lengthCheck_def getAttribute_def set_innerHTML_def comment_page_def blank_def js_lit_def)

text \<open>
  C8, amended. After any sequence of keystroke events across all elements, the content
  of the Feedback Element is the warning text if some event of the sequence, on an
  element that has the keydown listener, carried a value longer than 10, and is the
  initial content otherwise: every write writes the same text and no later event undoes
  it, so an earlier event's warning stays visible after later events that do not write.
\<close>

theorem keystrokes_content:
  assumes "strong s = Some fb"
  shows "innerHTML (heap (keystrokes s ks) fb) =
     (if \<exists>k\<in>set ks. LengthCheck \<in> set (listeners_on s (fst k) Keydown)
                      \<and> (\<exists>S. snd k = Some S \<and> length S > 10)
      then js_lit ''Comment too long!'' else innerHTML (heap s fb))"
  using assms by (rule keystrokes_content_aux)

theorem keystrokes_content_witness:
  "strong (comment_page [] None) = Some 0
   \<and> innerHTML (heap (keystrokes (comment_page [] None)
       [(1, Some (js_lit ''helloworld!'')), (1, Some (js_lit ''hello''))]) 0)
     = js_lit ''Comment too long!''"
proof -
  have a: "strong (comment_page [] None) = Some 0"
    by (simp add: comment_page_def)
  have b: "listeners_on (comment_page [] None) 1 Keydown = [LengthCheck]"
    by (simp add: listeners_on_def comment_page_def)
  have c: "length (js_lit ''helloworld!'') > 10"
    by (simp add: js_lit_def)
  from keystrokes_content [OF a, of "[(1, Some (js_lit ''helloworld!'')), (1, Some (js_lit ''hello''))]"]
    a b c show ?thesis by simp
qed

end
